theory Spec2Isabelle
  imports Main
begin

section \<open>JavaScript strings\<close>

text \<open>
  A JavaScript string is modelled as a \<open>string\<close>: a list of 8-bit characters, read as
  the code units U+0000 to U+00FF. Every result below is about text in that range; the
  character classes are the ones the source's methods and regular expressions use there.
\<close>

definition nl :: string where
  "nl = [CHR 0x0A]"

text \<open>\<open>\s\<close> in a regular expression, and what \<open>trim()\<close> strips.\<close>

definition isSpace :: "char \<Rightarrow> bool" where
  "isSpace c = (c \<in> set [CHR 0x09, CHR 0x0A, CHR 0x0B, CHR 0x0C, CHR 0x0D, CHR 0x20, CHR 0xA0])"

text \<open>\<open>\d\<close>, \<open>[a-z]\<close>, \<open>[A-Z]\<close> and \<open>\w\<close>.\<close>

definition isDigit :: "char \<Rightarrow> bool" where
  "isDigit c = (c \<in> set ''0123456789'')"

definition isLowerAZ :: "char \<Rightarrow> bool" where
  "isLowerAZ c = (c \<in> set ''abcdefghijklmnopqrstuvwxyz'')"

definition isUpperAZ :: "char \<Rightarrow> bool" where
  "isUpperAZ c = (c \<in> set ''ABCDEFGHIJKLMNOPQRSTUVWXYZ'')"

definition isWordChar :: "char \<Rightarrow> bool" where
  "isWordChar c = (isLowerAZ c \<or> isUpperAZ c \<or> isDigit c \<or> c = CHR ''_'')"

text \<open>
  \<open>toLowerCase()\<close> on one code unit: A to Z, and the Latin-1 capitals U+00C0 to U+00DE
  without the multiplication sign U+00D7, move up by 32 to their small letters.
\<close>

definition upper_letters :: string where
  "upper_letters =
     ''ABCDEFGHIJKLMNOPQRSTUVWXYZ''
     @ [CHR 0xC0, CHR 0xC1, CHR 0xC2, CHR 0xC3, CHR 0xC4, CHR 0xC5, CHR 0xC6, CHR 0xC7,
        CHR 0xC8, CHR 0xC9, CHR 0xCA, CHR 0xCB, CHR 0xCC, CHR 0xCD, CHR 0xCE, CHR 0xCF,
        CHR 0xD0, CHR 0xD1, CHR 0xD2, CHR 0xD3, CHR 0xD4, CHR 0xD5, CHR 0xD6, CHR 0xD8,
        CHR 0xD9, CHR 0xDA, CHR 0xDB, CHR 0xDC, CHR 0xDD, CHR 0xDE]"

definition lower_letters :: string where
  "lower_letters =
     ''abcdefghijklmnopqrstuvwxyz''
     @ [CHR 0xE0, CHR 0xE1, CHR 0xE2, CHR 0xE3, CHR 0xE4, CHR 0xE5, CHR 0xE6, CHR 0xE7,
        CHR 0xE8, CHR 0xE9, CHR 0xEA, CHR 0xEB, CHR 0xEC, CHR 0xED, CHR 0xEE, CHR 0xEF,
        CHR 0xF0, CHR 0xF1, CHR 0xF2, CHR 0xF3, CHR 0xF4, CHR 0xF5, CHR 0xF6, CHR 0xF8,
        CHR 0xF9, CHR 0xFA, CHR 0xFB, CHR 0xFC, CHR 0xFD, CHR 0xFE]"

definition toLowerCase_char :: "char \<Rightarrow> char" where
  "toLowerCase_char c =
     (case map_of (zip upper_letters lower_letters) c of None \<Rightarrow> c | Some l \<Rightarrow> l)"

definition toLowerCase :: "string \<Rightarrow> string" where
  "toLowerCase s = map toLowerCase_char s"

text \<open>
  \<open>toUpperCase()\<close> as the source applies it: to a single character matched by \<open>\w\<close>
  or \<open>[A-Z]\<close>, where only a to z change.
\<close>

definition toUpperCase_char :: "char \<Rightarrow> char" where
  "toUpperCase_char c =
     (case map_of (zip ''abcdefghijklmnopqrstuvwxyz'' ''ABCDEFGHIJKLMNOPQRSTUVWXYZ'') c of
        None \<Rightarrow> c
      | Some u \<Rightarrow> u)"

definition trim :: "string \<Rightarrow> string" where
  "trim s = rev (dropWhile isSpace (rev (dropWhile isSpace s)))"

definition startsWith :: "string \<Rightarrow> string \<Rightarrow> bool" where
  "startsWith s p = (take (length p) s = p)"

text \<open>\<open>s.includes(sub)\<close>: \<open>sub\<close> occurs in \<open>s\<close> as a block.\<close>

fun includes_str :: "string \<Rightarrow> string \<Rightarrow> bool" where
  "includes_str [] sub = (sub = [])"
| "includes_str (c # cs) sub = (startsWith (c # cs) sub \<or> includes_str cs sub)"

text \<open>\<open>s.split(sep)\<close> for a separator of one character: never the empty array.\<close>

fun split_str :: "char \<Rightarrow> string \<Rightarrow> string list" where
  "split_str sep [] = [[]]"
| "split_str sep (c # cs) =
     (if c = sep then [] # split_str sep cs
      else (case split_str sep cs of [] \<Rightarrow> [[c]] | p # ps \<Rightarrow> (c # p) # ps))"

text \<open>\<open>parts.join(sep)\<close>.\<close>

fun join_str :: "string \<Rightarrow> string list \<Rightarrow> string" where
  "join_str sep [] = []"
| "join_str sep [x] = x"
| "join_str sep (x # y # ys) = x @ sep @ join_str sep (y # ys)"

text \<open>
  A number inside a template literal: its decimal digits. \<open>digit_char\<close> is applied to
  numbers below ten only.
\<close>

definition digit_char :: "nat \<Rightarrow> char" where
  "digit_char d = ''0123456789'' ! d"

function string_of_nat :: "nat \<Rightarrow> string" where
  "string_of_nat n =
     (if n < 10 then [digit_char n] else string_of_nat (n div 10) @ [digit_char (n mod 10)])"
  by pat_completeness auto
termination
  by (relation "measure (\<lambda>n. n)") auto

declare string_of_nat.simps [simp del]

section \<open>The data model\<close>

datatype InteractionType = Click | Input | Scroll | Navigation | Hover

record Interaction =
  id_i :: string
  type_i :: InteractionType
  element_i :: string
  selector :: string
  value_i :: "string option"
  timestamp_i :: string
  screenshot :: "string option"

record ApiCall =
  id_a :: string
  method_a :: string
  url_a :: string
  headers_a :: "(string \<times> string) list"
  body_a :: "string option"
  response_a :: "string option"
  status_a :: int
  timestamp_a :: string

record TestStep =
  id_st :: string
  action :: string
  element :: string
  value_st :: "string option"
  expected :: "string option"

text \<open>
  \<open>format\<close> is declared as one of \<open>pytest\<close>, \<open>selenium_bdd\<close>, \<open>gherkin\<close>, and every
  function that reads it has a \<open>default\<close> branch for any other string (the parser takes
  the format as a plain string): it is a string here.
\<close>

record TestCase =
  id_tc :: string
  sessionId :: string
  title :: string
  description :: string
  steps :: "TestStep list"
  format :: string
  content :: string
  createdAt :: string

datatype SessionStatus = Recording | Stopped | Processing | Completed

record RecordingSession =
  id_s :: string
  userId :: string
  url :: string
  status :: SessionStatus
  startTime :: string
  endTime :: "string option"
  interactions :: "Interaction list"
  apiCalls :: "ApiCall list"
  testCases :: "TestCase list option"

section \<open>RecordingService: the session controller\<close>

text \<open>
  The controller's fields, and a log of what it does to the world outside: the sessions
  handed to \<open>saveSessionToDatabase\<close>, the records it logs, the capture window opened
  and closed. Each method is modelled as one atomic call that has run to its end;
  \<open>Date.now()\<close>, \<open>new Date().toISOString()\<close> and the result of \<open>window.open\<close> are
  arguments. The session is a value here: what a call returns is the session as it is at
  the return.

  The message listener and the liveness poll that \<open>monitorWindow\<close> installs do their work
  through \<open>recordInteraction\<close>, \<open>recordApiCall\<close> and \<open>stopRecording\<close>; they are covered
  as calls of these.
\<close>

record Window =
  closed :: bool

datatype effect =
  SessionSaved RecordingSession
| InteractionLogged Interaction
| ApiCallLogged ApiCall
| WindowOpened string
| WindowClosed

record RecordingService =
  currentSession :: "RecordingSession option"
  recordingWindow :: "Window option"
  isRecording :: bool
  effects :: "effect list"

definition newRecordingService :: RecordingService where
  "newRecordingService =
     \<lparr>currentSession = None, recordingWindow = None, isRecording = False, effects = []\<rparr>"

datatype error = Error string

definition ConflictError :: error where
  "ConflictError = Error ''Recording already in progress''"

definition saveSessionToDatabase :: "RecordingSession \<Rightarrow> RecordingService \<Rightarrow> RecordingService" where
  "saveSessionToDatabase session st = st\<lparr>effects := effects st @ [SessionSaved session]\<rparr>"

definition openRecordingWindow :: "string \<Rightarrow> Window option \<Rightarrow> RecordingService \<Rightarrow> RecordingService" where
  "openRecordingWindow u opened st =
     st\<lparr>recordingWindow := opened, effects := effects st @ [WindowOpened u]\<rparr>"

definition startRecording ::
  "nat \<Rightarrow> string \<Rightarrow> Window option \<Rightarrow> string \<Rightarrow> string \<Rightarrow> RecordingService
     \<Rightarrow> error + (RecordingSession \<times> RecordingService)" where
  "startRecording now stamp opened u uid st =
     (if isRecording st then Inl (Error ''Recording already in progress'')
      else
        let session =
              \<lparr>id_s = ''session_'' @ string_of_nat now, userId = uid, url = u,
               status = Recording, startTime = stamp, endTime = None,
               interactions = [], apiCalls = [], testCases = None\<rparr>;
            st1 = st\<lparr>currentSession := Some session\<rparr>;
            st2 = saveSessionToDatabase session st1;
            st3 = openRecordingWindow u opened st2;
            st4 = st3\<lparr>isRecording := True\<rparr>
        in Inr (session, st4))"

definition recordInteraction :: "Interaction \<Rightarrow> RecordingService \<Rightarrow> RecordingService" where
  "recordInteraction interaction st =
     (case currentSession st of
        None \<Rightarrow> st
      | Some s \<Rightarrow>
          st\<lparr>currentSession := Some (s\<lparr>interactions := interactions s @ [interaction]\<rparr>),
             effects := effects st @ [InteractionLogged interaction]\<rparr>)"

definition recordApiCall :: "ApiCall \<Rightarrow> RecordingService \<Rightarrow> RecordingService" where
  "recordApiCall apiCall st =
     (case currentSession st of
        None \<Rightarrow> st
      | Some s \<Rightarrow>
          st\<lparr>currentSession := Some (s\<lparr>apiCalls := apiCalls s @ [apiCall]\<rparr>),
             effects := effects st @ [ApiCallLogged apiCall]\<rparr>)"

definition stopRecording ::
  "string \<Rightarrow> RecordingService \<Rightarrow> RecordingSession option \<times> RecordingService" where
  "stopRecording stamp st =
     (case currentSession st of
        None \<Rightarrow> (None, st)
      | Some s \<Rightarrow>
          if \<not> isRecording st then (None, st)
          else
            let s' = s\<lparr>status := Processing, endTime := Some stamp\<rparr>;
                closing = (case recordingWindow st of
                             None \<Rightarrow> []
                           | Some w \<Rightarrow> if \<not> closed w then [WindowClosed] else []);
                st1 = st\<lparr>isRecording := False, currentSession := Some s',
                         recordingWindow := None, effects := effects st @ closing\<rparr>;
                st2 = saveSessionToDatabase s' st1
            in (Some s', st2))"

definition completeSession :: "string \<Rightarrow> RecordingService \<Rightarrow> RecordingService" where
  "completeSession sid st =
     (case currentSession st of
        None \<Rightarrow> st
      | Some s \<Rightarrow>
          if id_s s = sid then
            let s' = s\<lparr>status := Completed\<rparr>;
                st1 = saveSessionToDatabase s' (st\<lparr>currentSession := Some s'\<rparr>)
            in st1\<lparr>currentSession := None\<rparr>
          else st)"

definition pauseRecording :: "RecordingService \<Rightarrow> RecordingService" where
  "pauseRecording st =
     (case currentSession st of
        None \<Rightarrow> st
      | Some s \<Rightarrow> st\<lparr>currentSession := Some (s\<lparr>status := Stopped\<rparr>), isRecording := False\<rparr>)"

definition resumeRecording :: "RecordingService \<Rightarrow> RecordingService" where
  "resumeRecording st =
     (case currentSession st of
        None \<Rightarrow> st
      | Some s \<Rightarrow> st\<lparr>currentSession := Some (s\<lparr>status := Recording\<rparr>), isRecording := True\<rparr>)"

definition getCurrentSession :: "RecordingService \<Rightarrow> RecordingSession option" where
  "getCurrentSession st = currentSession st"

text \<open>
  Calls of the controller's methods in sequence. A \<open>startRecording\<close> that throws leaves
  the controller as it was.
\<close>

datatype call =
  StartRecording nat string "Window option" string string
| RecordInteraction Interaction
| RecordApiCall ApiCall
| StopRecording string
| CompleteSession string
| PauseRecording
| ResumeRecording

fun perform :: "call \<Rightarrow> RecordingService \<Rightarrow> RecordingService" where
  "perform (StartRecording now stamp opened u uid) st =
     (case startRecording now stamp opened u uid st of Inl e \<Rightarrow> st | Inr (s, st') \<Rightarrow> st')"
| "perform (RecordInteraction interaction) st = recordInteraction interaction st"
| "perform (RecordApiCall apiCall) st = recordApiCall apiCall st"
| "perform (StopRecording stamp) st = snd (stopRecording stamp st)"
| "perform (CompleteSession sid) st = completeSession sid st"
| "perform PauseRecording st = pauseRecording st"
| "perform ResumeRecording st = resumeRecording st"

fun run :: "call list \<Rightarrow> RecordingService \<Rightarrow> RecordingService" where
  "run [] st = st"
| "run (c # cs) st = run cs (perform c st)"


fun is_start :: "call \<Rightarrow> bool" where
  "is_start (StartRecording now stamp opened u uid) = True"
| "is_start c = False"

fun recorded_interactions :: "call list \<Rightarrow> Interaction list" where
  "recorded_interactions [] = []"
| "recorded_interactions (RecordInteraction interaction # cs) = interaction # recorded_interactions cs"
| "recorded_interactions (c # cs) = recorded_interactions cs"

fun recorded_apiCalls :: "call list \<Rightarrow> ApiCall list" where
  "recorded_apiCalls [] = []"
| "recorded_apiCalls (RecordApiCall apiCall # cs) = apiCall # recorded_apiCalls cs"
| "recorded_apiCalls (c # cs) = recorded_apiCalls cs"

text \<open>The data model's invariant on one session.\<close>

definition endTime_invariant :: "RecordingSession \<Rightarrow> bool" where
  "endTime_invariant s = ((endTime s \<noteq> None) = (status s = Processing \<or> status s = Completed))"

text \<open>
  The invariant on everything the controller holds or has saved: the held session, and
  each session handed to \<open>saveSessionToDatabase\<close>.
\<close>

fun saved_ok :: "effect \<Rightarrow> bool" where
  "saved_ok (SessionSaved s) = endTime_invariant s"
| "saved_ok e = True"

definition sessions_ok :: "RecordingService \<Rightarrow> bool" where
  "sessions_ok st =
     ((case currentSession st of None \<Rightarrow> True | Some s \<Rightarrow> endTime_invariant s)
      \<and> list_all saved_ok (effects st))"

text \<open>
  The state machine the callers follow: pause and resume while the held session is
  recording or paused, completion of the held session once it is processing.
\<close>

fun in_protocol :: "call \<Rightarrow> RecordingService \<Rightarrow> bool" where
  "in_protocol PauseRecording st =
     (case currentSession st of None \<Rightarrow> True | Some s \<Rightarrow> status s = Recording \<or> status s = Stopped)"
| "in_protocol ResumeRecording st =
     (case currentSession st of None \<Rightarrow> True | Some s \<Rightarrow> status s = Recording \<or> status s = Stopped)"
| "in_protocol (CompleteSession sid) st =
     (case currentSession st of None \<Rightarrow> True | Some s \<Rightarrow> id_s s = sid \<longrightarrow> status s = Processing)"
| "in_protocol c st = True"

fun run_in_protocol :: "call list \<Rightarrow> RecordingService \<Rightarrow> bool" where
  "run_in_protocol [] st = True"
| "run_in_protocol (c # cs) st = (in_protocol c st \<and> run_in_protocol cs (perform c st))"

text \<open>A recording started on a fresh controller, used in the examples.\<close>

definition example_start :: call where
  "example_start =
     StartRecording 1700000000000 ''2023-11-14T22:13:20.000Z'' (Some \<lparr>closed = False\<rparr>)
       ''https://example.com'' ''user_1''"

definition example_click :: Interaction where
  "example_click =
     \<lparr>id_i = ''interaction_1'', type_i = Click, element_i = ''button'', selector = ''#buy'',
      value_i = Some ''Buy now'', timestamp_i = ''2023-11-14T22:13:21.000Z'', screenshot = None\<rparr>"

definition example_input :: Interaction where
  "example_input =
     \<lparr>id_i = ''interaction_2'', type_i = Input, element_i = ''input'', selector = ''#quantity'',
      value_i = Some ''42'', timestamp_i = ''2023-11-14T22:13:23.000Z'', screenshot = None\<rparr>"

definition example_apiCall :: ApiCall where
  "example_apiCall =
     \<lparr>id_a = ''api_1700000002000'', method_a = ''GET'', url_a = ''https://example.com/api/cart'',
      headers_a = [], body_a = None, response_a = None, status_a = 200,
      timestamp_a = ''2023-11-14T22:13:22.000Z''\<rparr>"

section \<open>The capture agent's selector resolver\<close>

text \<open>
  \<open>getSelector\<close> of the injected recording script reads four properties of a DOM node.
  The document, the parent of the root element, is a node without parent; the loop never
  reads its other properties.
\<close>

datatype element =
  Element (tagName: string) (id_e: string) (className: string) (parentNode: "element option")






section \<open>TestCaseGenerator: parsing the completion response\<close>

text \<open>
  The regular expression \<open>/Test Case \d+:|Scenario:|Feature:/\<close> tried at the start of
  a string: the rest of the string after the match. The alternatives are tried in order;
  \<open>\d+\<close> takes every digit it finds, and giving one back could not help, since the
  colon must follow.
\<close>

definition match_marker :: "string \<Rightarrow> string option" where
  "match_marker s =
     (let r = dropWhile isDigit (drop 10 s)
      in if startsWith s ''Test Case '' \<and> takeWhile isDigit (drop 10 s) \<noteq> [] \<and> startsWith r '':''
         then Some (drop 1 r)
         else if startsWith s ''Scenario:'' then Some (drop 9 s)
         else if startsWith s ''Feature:'' then Some (drop 8 s)
         else None)"

lemma startsWith_length: "startsWith s p \<Longrightarrow> length p \<le> length s"
proof -
  assume "startsWith s p"
  then have "length (take (length p) s) = length p"
    by (simp add: startsWith_def)
  then show ?thesis by simp
qed

lemma match_marker_shorter:
  assumes "match_marker s = Some r"
  shows "length r < length s"
proof -
  have digits: "length (dropWhile isDigit (drop 10 s)) \<le> length s - 10"
    using length_dropWhile_le [of isDigit "drop 10 s"] by simp
  consider
    (testcase) "startsWith s ''Test Case ''" and "r = drop 1 (dropWhile isDigit (drop 10 s))"
  | (scenario) "startsWith s ''Scenario:''" and "r = drop 9 s"
  | (feature) "startsWith s ''Feature:''" and "r = drop 8 s"
    using assms by (auto simp: match_marker_def Let_def split: if_splits)
  then show ?thesis
  proof cases
    case testcase
    from startsWith_length [OF testcase(1)] have "10 \<le> length s" by simp
    with digits testcase(2) show ?thesis by simp
  next
    case scenario
    from startsWith_length [OF scenario(1)] have "9 \<le> length s" by simp
    with scenario(2) show ?thesis by simp
  next
    case feature
    from startsWith_length [OF feature(1)] have "8 \<le> length s" by simp
    with feature(2) show ?thesis by simp
  qed
qed

text \<open>
  \<open>response.split(regex)\<close>: the text before each match, and the text after the last;
  \<open>cur\<close> is the piece read so far.
\<close>

function split_markers_from :: "string \<Rightarrow> string \<Rightarrow> string list" where
  "split_markers_from cur [] = [cur]"
| "split_markers_from cur (c # cs) =
     (case match_marker (c # cs) of
        Some r \<Rightarrow> cur # split_markers_from [] r
      | None \<Rightarrow> split_markers_from (cur @ [c]) cs)"
  by pat_completeness auto
termination
  by (relation "measure (\<lambda>(cur, s). length s)") (auto dest: match_marker_shorter)

definition split_markers :: "string \<Rightarrow> string list" where
  "split_markers response = split_markers_from [] response"

text \<open>\<open>line.replace(/description:?/i, '')\<close>: the first match is cut out.\<close>

fun remove_description :: "string \<Rightarrow> string" where
  "remove_description [] = []"
| "remove_description (c # cs) =
     (if toLowerCase (take 11 (c # cs)) = ''description''
      then (let r = drop 11 (c # cs) in if startsWith r '':'' then drop 1 r else r)
      else c # remove_description cs)"

definition extractDescription :: "string \<Rightarrow> string" where
  "extractDescription contentText =
     (let descriptionLine =
            find (\<lambda>line. includes_str (toLowerCase line) ''description''
                         \<or> includes_str (toLowerCase line) ''purpose'')
              (split_str (CHR 0x0A) contentText)
      in case descriptionLine of
           None \<Rightarrow> ''AI-generated test case''
         | Some line \<Rightarrow>
             (let d = trim (remove_description line)
              in if d \<noteq> [] then d else ''AI-generated test case''))"

text \<open>\<open>trimmed.match(/^\d+\.|\*|-|Given|When|Then|And/)\<close> finds a match.\<close>

definition matches_step :: "string \<Rightarrow> bool" where
  "matches_step trimmed =
     ((takeWhile isDigit trimmed \<noteq> [] \<and> startsWith (dropWhile isDigit trimmed) ''.'')
      \<or> includes_str trimmed ''*'' \<or> includes_str trimmed ''-''
      \<or> includes_str trimmed ''Given'' \<or> includes_str trimmed ''When''
      \<or> includes_str trimmed ''Then'' \<or> includes_str trimmed ''And'')"

definition extractSteps :: "string \<Rightarrow> TestStep list" where
  "extractSteps contentText =
     concat (map (\<lambda>(index, line).
                    let trimmed = trim line
                    in if matches_step trimmed
                       then [\<lparr>id_st = ''step_'' @ string_of_nat index, action = trimmed,
                              element = [], value_st = None, expected = Some []\<rparr>]
                       else [])
               (enumerate 0 (split_str (CHR 0x0A) contentText)))"

text \<open>
  One section of the response as a test case. \<open>now index\<close> and \<open>stamp index\<close> are what
  \<open>Date.now()\<close> and \<open>new Date().toISOString()\<close> return while section \<open>index\<close> is
  handled.
\<close>

definition section_testCase ::
  "(nat \<Rightarrow> nat) \<Rightarrow> (nat \<Rightarrow> string) \<Rightarrow> string \<Rightarrow> string \<Rightarrow> nat \<Rightarrow> string \<Rightarrow> TestCase" where
  "section_testCase now stamp sid fmt index sectionText =
     (let lines = split_str (CHR 0x0A) (trim sectionText);
          first = (case lines of [] \<Rightarrow> [] | l # ls \<Rightarrow> trim l)
      in \<lparr>id_tc = ''test_'' @ sid @ ''_'' @ string_of_nat (now index) @ ''_'' @ string_of_nat index,
          sessionId = sid,
          title = (if first \<noteq> [] then first else ''Test Case '' @ string_of_nat (index + 1)),
          description = extractDescription sectionText,
          steps = extractSteps sectionText,
          format = fmt,
          content = trim sectionText,
          createdAt = stamp index\<rparr>)"

definition fallback_testCase ::
  "(nat \<Rightarrow> nat) \<Rightarrow> (nat \<Rightarrow> string) \<Rightarrow> string \<Rightarrow> string \<Rightarrow> string \<Rightarrow> TestCase" where
  "fallback_testCase now stamp response sid fmt =
     \<lparr>id_tc = ''test_'' @ sid @ ''_'' @ string_of_nat (now 0),
      sessionId = sid,
      title = ''Generated Test Case'',
      description = ''AI-generated test case based on recorded interactions'',
      steps = [],
      format = fmt,
      content = response,
      createdAt = stamp 0\<rparr>"

text \<open>
  \<open>parseAIResponse\<close>. Nothing in its \<open>try\<close> block throws on a string, so the
  \<open>catch\<close> branch, which returns the same fallback test case, is never taken.
\<close>

definition parseAIResponse ::
  "(nat \<Rightarrow> nat) \<Rightarrow> (nat \<Rightarrow> string) \<Rightarrow> string \<Rightarrow> string \<Rightarrow> string \<Rightarrow> TestCase list" where
  "parseAIResponse now stamp response sid fmt =
     (let sections = filter (\<lambda>s. trim s \<noteq> []) (split_markers response);
          testCases =
            concat (map (\<lambda>(index, sectionText).
                           if trim sectionText \<noteq> []
                           then [section_testCase now stamp sid fmt index sectionText]
                           else [])
                      (enumerate 0 sections))
      in if length testCases = 0
         then testCases @ [fallback_testCase now stamp response sid fmt]
         else testCases)"

section \<open>FileDownloadService: the format renderer\<close>

text \<open>\<open>str.replace(/\s+/g, '_')\<close>: every run of whitespace becomes one underscore.\<close>

fun whitespace_runs :: "bool \<Rightarrow> string \<Rightarrow> string" where
  "whitespace_runs inRun [] = []"
| "whitespace_runs inRun (c # cs) =
     (if isSpace c then (if inRun then whitespace_runs True cs else CHR ''_'' # whitespace_runs True cs)
      else c # whitespace_runs False cs)"

definition whitespaceToUnderscore :: "string \<Rightarrow> string" where
  "whitespaceToUnderscore s = whitespace_runs False s"

text \<open>\<open>str.replace(/[^a-z0-9_]/g, '')\<close>.\<close>

definition stripNonIdentifier :: "string \<Rightarrow> string" where
  "stripNonIdentifier s = filter (\<lambda>c. isLowerAZ c \<or> isDigit c \<or> c = CHR ''_'') s"

definition toSnakeCase :: "string \<Rightarrow> string" where
  "toSnakeCase s = stripNonIdentifier (whitespaceToUnderscore (toLowerCase s))"

text \<open>
  \<open>toPascalCase\<close>: \<open>/(?:^\w|[A-Z]|\b\w)/g\<close> matches one character at a time, a capital
  or a word character that starts a word (\<open>prevWord\<close>: the character before is a word
  character); each match is replaced by its upper case, then all whitespace is removed.
\<close>

fun capitalizeWords :: "bool \<Rightarrow> string \<Rightarrow> string" where
  "capitalizeWords prevWord [] = []"
| "capitalizeWords prevWord (c # cs) =
     (if (isWordChar c \<and> \<not> prevWord) \<or> isUpperAZ c then toUpperCase_char c else c)
     # capitalizeWords (isWordChar c) cs"

definition toPascalCase :: "string \<Rightarrow> string" where
  "toPascalCase s = filter (\<lambda>c. \<not> isSpace c) (capitalizeWords False s)"

text \<open>
  \<open>content.match(/https?:\/\/[^\s]+/)\<close>: the match at the start of a string, and the
  first match anywhere.
\<close>

definition match_url :: "string \<Rightarrow> string option" where
  "match_url s =
     (if startsWith s ''https://'' \<and> takeWhile (\<lambda>c. \<not> isSpace c) (drop 8 s) \<noteq> []
      then Some (''https://'' @ takeWhile (\<lambda>c. \<not> isSpace c) (drop 8 s))
      else if startsWith s ''http://'' \<and> takeWhile (\<lambda>c. \<not> isSpace c) (drop 7 s) \<noteq> []
      then Some (''http://'' @ takeWhile (\<lambda>c. \<not> isSpace c) (drop 7 s))
      else None)"

fun find_url :: "string \<Rightarrow> string option" where
  "find_url [] = None"
| "find_url (c # cs) =
     (case match_url (c # cs) of Some u \<Rightarrow> Some u | None \<Rightarrow> find_url cs)"

definition extractUrlFromContent :: "string \<Rightarrow> string" where
  "extractUrlFromContent contentText =
     (case find_url contentText of Some u \<Rightarrow> u | None \<Rightarrow> ''https://example.com'')"

text \<open>\<open>step.value || fallback\<close>: a missing or empty value gives the fallback.\<close>

definition value_or :: "string option \<Rightarrow> string \<Rightarrow> string" where
  "value_or v fallback = (case v of None \<Rightarrow> fallback | Some x \<Rightarrow> if x \<noteq> [] then x else fallback)"

text \<open>The templates, one source line per line.\<close>

definition pytestStep :: "TestStep \<Rightarrow> string" where
  \<open>pytestStep step =
     concat
       [''            # '', action step, nl,
        ''            time.sleep(0.5)  # Small delay for stability'']\<close>

definition generatePytestSteps :: "TestCase \<Rightarrow> string" where
  \<open>generatePytestSteps testCase =
     (let rendered = join_str nl (map pytestStep (steps testCase))
      in concat
         [''# Navigate to the application'', nl,
          ''            driver.get("'', extractUrlFromContent (content testCase), ''")'', nl,
          ''            '', nl,
          ''            # Wait for page to load'', nl,
          ''            self.wait_for_element(driver, By.TAG_NAME, "body")'', nl,
          ''            '', nl,
          ''            '', rendered, nl,
          ''            '', nl,
          ''            # Add assertions'', nl,
          ''            assert driver.title is not None, "Page title should not be None"'', nl,
          ''            print("Test completed successfully")''])\<close>

text \<open>The classification of one step, the function \<open>generateGherkinSteps\<close> maps over the steps.\<close>

definition gherkinStep :: "TestStep \<Rightarrow> string" where
  \<open>gherkinStep step =
     (if includes_str (toLowerCase (action step)) ''click'' then
        concat
          [''    When I click on "'', element step, ''"'']
      else if includes_str (toLowerCase (action step)) ''input''
              \<or> includes_str (toLowerCase (action step)) ''type'' then
        concat
          [''    When I enter "'', value_or (value_st step) ''test data'', ''" in "'', element step, ''"'']
      else if includes_str (toLowerCase (action step)) ''navigate'' then
        concat
          [''    Given I navigate to "'', value_or (value_st step) ''the page'', ''"'']
      else
        concat
          [''    And I '', toLowerCase (action step)])\<close>

definition generateGherkinSteps :: "TestCase \<Rightarrow> string" where
  \<open>generateGherkinSteps testCase =
     (let rendered = join_str nl (map gherkinStep (steps testCase))
      in concat
         [''Given I am on the application page'', nl,
          ''    '', rendered, nl,
          ''    Then I should see the expected results'', nl,
          ''    And the page should be displayed correctly''])\<close>

definition generateJavaStepDefinitions :: "TestCase \<Rightarrow> string" where
  \<open>generateJavaStepDefinitions testCase =
     concat
       [nl,
        ''    @Given("the browser is open")'', nl,
        ''    public void the_browser_is_open() {'', nl,
        ''        // Browser setup is handled in @Before'', nl,
        ''        Assert.assertNotNull("Driver should be initialized", driver);'', nl,
        ''    }'', nl,
        ''    '', nl,
        ''    @Given("I navigate to the application")'', nl,
        ''    public void i_navigate_to_the_application() {'', nl,
        ''        driver.get("'', extractUrlFromContent (content testCase), ''");'', nl,
        ''    }'', nl,
        ''    '', nl,
        ''    @When("I click on {string}")'', nl,
        ''    public void i_click_on(String element) {'', nl,
        ''        // Implementation for clicking elements'', nl,
        ''        // Use page object methods here'', nl,
        ''    }'', nl,
        ''    '', nl,
        ''    @When("I enter {string} in {string}")'', nl,
        ''    public void i_enter_in(String text, String element) {'', nl,
        ''        // Implementation for entering text'', nl,
        ''        // Use page object methods here'', nl,
        ''    }'', nl,
        ''    '', nl,
        ''    @Then("I should see the expected results")'', nl,
        ''    public void i_should_see_the_expected_results() {'', nl,
        ''        // Add assertions here'', nl,
        ''        Assert.assertTrue("Expected results should be visible", true);'', nl,
        ''    }'', nl]\<close>

text \<open>\<open>stamp\<close> is what \<open>new Date().toISOString()\<close> returns during the call.\<close>

definition generatePytestFile :: "string \<Rightarrow> TestCase \<Rightarrow> string" where
  \<open>generatePytestFile stamp testCase =
     concat
       [''"""'', nl,
        title testCase, nl,
        description testCase, nl,
        nl,
        ''Generated on: '', stamp, nl,
        ''"""'', nl,
        nl,
        ''import pytest'', nl,
        ''import time'', nl,
        ''from selenium import webdriver'', nl,
        ''from selenium.webdriver.common.by import By'', nl,
        ''from selenium.webdriver.support.ui import WebDriverWait'', nl,
        ''from selenium.webdriver.support import expected_conditions as EC'', nl,
        ''from selenium.webdriver.common.action_chains import ActionChains'', nl,
        ''from selenium.webdriver.chrome.options import Options'', nl,
        nl,
        nl,
        ''class Test'', toPascalCase (title testCase), '':'', nl,
        ''    """Test class for '', title testCase, ''"""'', nl,
        ''    '', nl,
        ''    @pytest.fixture(scope="function")'', nl,
        ''    def driver(self):'', nl,
        ''        """Setup and teardown for WebDriver"""'', nl,
        ''        options = Options()'', nl,
        ''        options.add_argument("--headless")  # Remove for debugging'', nl,
        ''        options.add_argument("--no-sandbox")'', nl,
        ''        options.add_argument("--disable-dev-shm-usage")'', nl,
        ''        '', nl,
        ''        driver = webdriver.Chrome(options=options)'', nl,
        ''        driver.implicitly_wait(10)'', nl,
        ''        driver.maximize_window()'', nl,
        ''        '', nl,
        ''        yield driver'', nl,
        ''        '', nl,
        ''        driver.quit()'', nl,
        ''    '', nl,
        ''    def test_'', toSnakeCase (title testCase), ''(self, driver):'', nl,
        ''        """'', nl,
        ''        '', description testCase, nl,
        ''        """'', nl,
        ''        try:'', nl,
        ''            '', generatePytestSteps testCase, nl,
        ''            '', nl,
        ''        except Exception as e:'', nl,
        ''            pytest.fail(f"Test failed with error: {str(e)}")'', nl,
        ''    '', nl,
        ''    def wait_for_element(self, driver, by, value, timeout=10):'', nl,
        ''        """Helper method to wait for element"""'', nl,
        ''        return WebDriverWait(driver, timeout).until('', nl,
        ''            EC.presence_of_element_located((by, value))'', nl,
        ''        )'', nl,
        ''    '', nl,
        ''    def wait_and_click(self, driver, by, value, timeout=10):'', nl,
        ''        """Helper method to wait and click element"""'', nl,
        ''        element = WebDriverWait(driver, timeout).until('', nl,
        ''            EC.element_to_be_clickable((by, value))'', nl,
        ''        )'', nl,
        ''        element.click()'', nl,
        ''        return element'', nl,
        ''    '', nl,
        ''    def wait_and_send_keys(self, driver, by, value, text, timeout=10):'', nl,
        ''        """Helper method to wait and send keys to element"""'', nl,
        ''        element = WebDriverWait(driver, timeout).until('', nl,
        ''            EC.presence_of_element_located((by, value))'', nl,
        ''        )'', nl,
        ''        element.clear()'', nl,
        ''        element.send_keys(text)'', nl,
        ''        return element'', nl,
        nl,
        nl,
        ''if __name__ == "__main__":'', nl,
        ''    pytest.main([__file__])'', nl]\<close>

definition generateSeleniumBDDFiles :: "TestCase \<Rightarrow> string" where
  \<open>generateSeleniumBDDFiles testCase =
     concat
       [''# Feature File: '', whitespaceToUnderscore (toLowerCase (title testCase)), ''.feature'', nl,
        nl,
        ''Feature: '', title testCase, nl,
        ''  As a user'', nl,
        ''  I want to '', description testCase, nl,
        ''  So that I can verify the application functionality'', nl,
        nl,
        ''  Background:'', nl,
        ''    Given the browser is open'', nl,
        ''    And I navigate to the application'', nl,
        nl,
        ''  Scenario: '', title testCase, nl,
        ''    '', generateGherkinSteps testCase, nl,
        nl,
        ''# Step Definitions (Java)'', nl,
        ''# File: '', toPascalCase (title testCase), ''Steps.java'', nl,
        nl,
        ''package stepDefinitions;'', nl,
        nl,
        ''import io.cucumber.java.en.*;'', nl,
        ''import org.openqa.selenium.WebDriver;'', nl,
        ''import org.openqa.selenium.chrome.ChromeDriver;'', nl,
        ''import org.openqa.selenium.support.ui.WebDriverWait;'', nl,
        ''import org.junit.Assert;'', nl,
        ''import java.time.Duration;'', nl,
        nl,
        ''public class '', toPascalCase (title testCase), ''Steps {'', nl,
        ''    '', nl,
        ''    private WebDriver driver;'', nl,
        ''    private WebDriverWait wait;'', nl,
        ''    '', nl,
        ''    @Before'', nl,
        ''    public void setUp() {'', nl,
        ''        System.setProperty("webdriver.chrome.driver", "path/to/chromedriver");'', nl,
        ''        driver = new ChromeDriver();'', nl,
        ''        wait = new WebDriverWait(driver, Duration.ofSeconds(10));'', nl,
        ''        driver.manage().window().maximize();'', nl,
        ''    }'', nl,
        ''    '', nl,
        ''    @After'', nl,
        ''    public void tearDown() {'', nl,
        ''        if (driver != null) {'', nl,
        ''            driver.quit();'', nl,
        ''        }'', nl,
        ''    }'', nl,
        ''    '', nl,
        ''    '', generateJavaStepDefinitions testCase, nl,
        ''}'', nl,
        nl,
        ''# Page Object Model'', nl,
        ''# File: '', toPascalCase (title testCase), ''Page.java'', nl,
        nl,
        ''package pageObjects;'', nl,
        nl,
        ''import org.openqa.selenium.WebDriver;'', nl,
        ''import org.openqa.selenium.WebElement;'', nl,
        ''import org.openqa.selenium.support.FindBy;'', nl,
        ''import org.openqa.selenium.support.PageFactory;'', nl,
        nl,
        ''public class '', toPascalCase (title testCase), ''Page {'', nl,
        ''    '', nl,
        ''    private WebDriver driver;'', nl,
        ''    '', nl,
        ''    public '', toPascalCase (title testCase), ''Page(WebDriver driver) {'', nl,
        ''        this.driver = driver;'', nl,
        ''        PageFactory.initElements(driver, this);'', nl,
        ''    }'', nl,
        ''    '', nl,
        ''    // Add page elements and methods here'', nl,
        ''    '', nl,
        ''}'', nl]\<close>

definition generateGherkinFile :: "TestCase \<Rightarrow> string" where
  \<open>generateGherkinFile testCase =
     concat
       [''Feature: '', title testCase, nl,
        ''  '', description testCase, nl,
        nl,
        ''  Background:'', nl,
        ''    Given the user is on the application'', nl,
        ''    And the system is ready for testing'', nl,
        nl,
        ''  Scenario: '', title testCase, nl,
        ''    '', generateGherkinSteps testCase, nl,
        nl,
        ''  Scenario Outline: '', title testCase, '' with different data'', nl,
        ''    '', generateGherkinSteps testCase, nl,
        ''    '', nl,
        ''    Examples:'', nl,
        ''      | data1 | data2 | expected |'', nl,
        ''      | test1 | val1  | result1  |'', nl,
        ''      | test2 | val2  | result2  |'', nl,
        nl,
        ''  @smoke @regression'', nl,
        ''  Scenario: '', title testCase, '' - Error Handling'', nl,
        ''    Given the user is on the application'', nl,
        ''    When an error occurs during the process'', nl,
        ''    Then the system should handle the error gracefully'', nl,
        ''    And display appropriate error messages'', nl]\<close>

definition generateFileContent :: "string \<Rightarrow> TestCase \<Rightarrow> string" where
  "generateFileContent stamp testCase =
     (if format testCase = ''pytest'' then generatePytestFile stamp testCase
      else if format testCase = ''selenium_bdd'' then generateSeleniumBDDFiles testCase
      else if format testCase = ''gherkin'' then generateGherkinFile testCase
      else content testCase)"

definition generateFilename :: "TestCase \<Rightarrow> string" where
  "generateFilename testCase =
     (let baseName = stripNonIdentifier (whitespaceToUnderscore (toLowerCase (title testCase)))
      in if format testCase = ''pytest'' then ''test_'' @ baseName @ ''.py''
         else if format testCase = ''selenium_bdd'' then baseName @ ''.feature''
         else if format testCase = ''gherkin'' then baseName @ ''.feature''
         else baseName @ ''.txt'')"

text \<open>
  The claim's words on the file name, for comparison: the title lower-cased, stripped of
  what is neither a letter, a digit nor a space, its spaces replaced by underscores, then
  \<open>.py\<close> for pytest and \<open>.feature\<close> for every other format.
\<close>

definition spaceToUnderscore :: "char \<Rightarrow> char" where
  "spaceToUnderscore c = (if c = CHR '' '' then CHR ''_'' else c)"

definition spec_basename :: "string \<Rightarrow> string" where
  "spec_basename t =
     map spaceToUnderscore
       (filter (\<lambda>c. isLowerAZ c \<or> isDigit c \<or> c = CHR '' '') (toLowerCase t))"

definition spec_filename :: "TestCase \<Rightarrow> string" where
  "spec_filename testCase =
     spec_basename (title testCase)
     @ (if format testCase = ''pytest'' then ''.py'' else ''.feature'')"

text \<open>
  Titles on which the claim's words and the code agree on the base name: no underscore,
  and no whitespace but single spaces.
\<close>

fun single_spaced :: "string \<Rightarrow> bool" where
  "single_spaced [] = True"
| "single_spaced [c] = (isSpace c \<longrightarrow> c = CHR '' '')"
| "single_spaced (c # d # cs) =
     ((isSpace c \<longrightarrow> c = CHR '' '' \<and> \<not> isSpace d) \<and> single_spaced (d # cs))"

definition plain_title :: "string \<Rightarrow> bool" where
  "plain_title t = (CHR ''_'' \<notin> set t \<and> single_spaced t)"

text \<open>Test cases used in the examples.\<close>

definition example_testCase :: TestCase where
  "example_testCase =
     \<lparr>id_tc = ''test_session_1700000000000_1700000030000_0'',
      sessionId = ''session_1700000000000'',
      title = ''Checkout Flow'',
      description = ''Purpose: buy 42 items'',
      steps = [\<lparr>id_st = ''step_1'', action = ''1. Click the buy button'', element = ''#buy'',
                 value_st = None, expected = None\<rparr>,
               \<lparr>id_st = ''step_2'', action = ''2. Type the quantity'', element = ''#quantity'',
                 value_st = Some ''42'', expected = None\<rparr>],
      format = ''pytest'',
      content = ''Open https://example.com and buy'',
      createdAt = ''2023-11-14T22:13:50.000Z''\<rparr>"

section \<open>Lemmas\<close>

subsection \<open>Evaluation\<close>

lemmas controller_defs =
  newRecordingService_def startRecording_def saveSessionToDatabase_def
  openRecordingWindow_def recordInteraction_def recordApiCall_def stopRecording_def
  completeSession_def pauseRecording_def resumeRecording_def ConflictError_def
  example_start_def Let_def

lemmas eval_defs = controller_defs string_of_nat.simps digit_char_def

lemmas case_defs = toLowerCase_def toLowerCase_char_def upper_letters_def lower_letters_def

subsection \<open>The session controller\<close>



lemma perform_keeps_invariant:
  "sessions_ok st \<Longrightarrow> in_protocol c st \<Longrightarrow> sessions_ok (perform c st)"
  by (cases c)
    (auto simp: controller_defs sessions_ok_def endTime_invariant_def
      split: option.splits if_splits)

lemma run_keeps_invariant:
  "sessions_ok st \<Longrightarrow> run_in_protocol calls st \<Longrightarrow> sessions_ok (run calls st)"
  by (induction calls arbitrary: st) (auto simp: perform_keeps_invariant)

lemma saved_ok_all:
  "list_all saved_ok es = (\<forall>s. SessionSaved s \<in> set es \<longrightarrow> endTime_invariant s)"
proof (induction es)
  case Nil
  then show ?case by simp
next
  case (Cons e es)
  then show ?case by (cases e) auto
qed

lemma run_released:
  "\<not> list_ex is_start calls \<Longrightarrow> currentSession st = None \<Longrightarrow> currentSession (run calls st) = None"
proof (induction calls arbitrary: st)
  case Nil
  then show ?case by simp
next
  case (Cons c calls)
  have "currentSession (perform c st) = None"
    using Cons.prems by (cases c) (auto simp: controller_defs)
  with Cons show ?case by simp
qed

lemma perform_appends:
  assumes "\<not> is_start c" and "currentSession st = Some s"
  shows "currentSession (perform c st) = None
         \<or> (\<exists>s1. currentSession (perform c st) = Some s1
               \<and> interactions s1 = interactions s @ recorded_interactions [c]
               \<and> apiCalls s1 = apiCalls s @ recorded_apiCalls [c])"
  using assms by (cases c) (auto simp: controller_defs split: option.splits if_splits)

lemma recorded_interactions_Cons:
  "recorded_interactions (c # cs) = recorded_interactions [c] @ recorded_interactions cs"
  by (cases c) auto

lemma recorded_apiCalls_Cons:
  "recorded_apiCalls (c # cs) = recorded_apiCalls [c] @ recorded_apiCalls cs"
  by (cases c) auto

lemma run_appends:
  "\<not> list_ex is_start calls \<Longrightarrow> currentSession st = Some s
     \<Longrightarrow> currentSession (run calls st) = Some s'
     \<Longrightarrow> interactions s' = interactions s @ recorded_interactions calls
         \<and> apiCalls s' = apiCalls s @ recorded_apiCalls calls"
proof (induction calls arbitrary: st s)
  case Nil
  then show ?case by simp
next
  case (Cons c calls)
  from Cons.prems have ns: "\<not> is_start c" and rest: "\<not> list_ex is_start calls" by auto
  from perform_appends [OF ns Cons.prems(2)] show ?case
  proof
    assume "currentSession (perform c st) = None"
    with run_released [OF rest] Cons.prems(3) show ?thesis by simp
  next
    assume "\<exists>s1. currentSession (perform c st) = Some s1
               \<and> interactions s1 = interactions s @ recorded_interactions [c]
               \<and> apiCalls s1 = apiCalls s @ recorded_apiCalls [c]"
    then obtain s1 where s1: "currentSession (perform c st) = Some s1"
      and i1: "interactions s1 = interactions s @ recorded_interactions [c]"
      and a1: "apiCalls s1 = apiCalls s @ recorded_apiCalls [c]" by blast
    from Cons.prems(3) have "currentSession (run calls (perform c st)) = Some s'" by simp
    from Cons.IH [OF rest s1 this] i1 a1 show ?thesis
      using recorded_interactions_Cons [of c calls] recorded_apiCalls_Cons [of c calls]
      by simp
  qed
qed

lemma perform_effects_extend: "\<exists>es. effects (perform c st) = effects st @ es"
  by (cases c) (auto simp: controller_defs split: option.splits if_splits)

lemma run_effects_extend: "\<exists>es. effects (run calls st) = effects st @ es"
proof (induction calls arbitrary: st)
  case Nil
  then show ?case by simp
next
  case (Cons c calls)
  obtain es1 where "effects (perform c st) = effects st @ es1"
    using perform_effects_extend by blast
  moreover obtain es2 where "effects (run calls (perform c st)) = effects (perform c st) @ es2"
    using Cons.IH by blast
  ultimately show ?case by simp
qed

subsection \<open>Strings\<close>



lemma startsWith_iff: "startsWith s p = (\<exists>ss. s = p @ ss)"
proof
  assume "startsWith s p"
  then have "s = p @ drop (length p) s"
    by (metis append_take_drop_id startsWith_def)
  then show "\<exists>ss. s = p @ ss" ..
next
  assume "\<exists>ss. s = p @ ss"
  then show "startsWith s p"
    by (auto simp: startsWith_def)
qed

lemma includes_str_iff: "includes_str s sub = (\<exists>ps ss. s = ps @ sub @ ss)"
proof (induction s)
  case Nil
  then show ?case by auto
next
  case (Cons c cs)
  show ?case
  proof
    assume "includes_str (c # cs) sub"
    then consider "startsWith (c # cs) sub" | "includes_str cs sub" by auto
    then show "\<exists>ps ss. c # cs = ps @ sub @ ss"
    proof cases
      case 1
      then obtain ss where "c # cs = sub @ ss" by (auto simp: startsWith_iff)
      then have "c # cs = [] @ sub @ ss" by simp
      then show ?thesis by blast
    next
      case 2
      with Cons.IH obtain ps ss where "cs = ps @ sub @ ss" by blast
      then have "c # cs = (c # ps) @ sub @ ss" by simp
      then show ?thesis by blast
    qed
  next
    assume "\<exists>ps ss. c # cs = ps @ sub @ ss"
    then obtain ps ss where eq: "c # cs = ps @ sub @ ss" by blast
    show "includes_str (c # cs) sub"
    proof (cases ps)
      case Nil
      with eq have "startsWith (c # cs) sub" by (auto simp: startsWith_iff)
      then show ?thesis by simp
    next
      case (Cons p ps')
      with eq have "cs = ps' @ sub @ ss" by simp
      with Cons.IH have "includes_str cs sub" by blast
      then show ?thesis by simp
    qed
  qed
qed

lemma includes_lowered:
  assumes "includes_str s kw" and "toLowerCase kw = kw"
  shows "includes_str (toLowerCase s) kw"
proof -
  from assms(1) obtain ps ss where "s = ps @ kw @ ss"
    by (auto simp: includes_str_iff)
  then have "toLowerCase s = toLowerCase ps @ toLowerCase kw @ toLowerCase ss"
    by (simp add: toLowerCase_def)
  with assms(2) show ?thesis
    by (auto simp: includes_str_iff)
qed

lemma keywords_lower:
  "toLowerCase ''click'' = ''click''" "toLowerCase ''input'' = ''input''"
  "toLowerCase ''type'' = ''type''" "toLowerCase ''navigate'' = ''navigate''"
  by code_simp+

lemma lowered_char:
  "(c \<notin> set upper_letters \<and> toLowerCase_char c = c)
   \<or> (c \<in> set upper_letters \<and> toLowerCase_char c \<in> set lower_letters)"
proof (cases "map_of (zip upper_letters lower_letters) c")
  case None
  have "length upper_letters = length lower_letters"
    by (simp add: upper_letters_def lower_letters_def)
  with None have "c \<notin> set upper_letters"
    by (simp add: map_of_zip_is_None)
  with None show ?thesis by (simp add: toLowerCase_char_def)
next
  case (Some l)
  then have "(c, l) \<in> set (zip upper_letters lower_letters)"
    by (rule map_of_SomeD)
  then have "c \<in> set upper_letters" and "l \<in> set lower_letters"
    by (auto dest: set_zip_leftD set_zip_rightD)
  with Some show ?thesis by (simp add: toLowerCase_char_def)
qed

lemma letters_not_blank:
  "c \<in> set upper_letters \<Longrightarrow> \<not> isSpace c \<and> c \<noteq> CHR ''_''"
  "c \<in> set lower_letters \<Longrightarrow> \<not> isSpace c \<and> c \<noteq> CHR ''_''"
  by (auto simp: upper_letters_def lower_letters_def isSpace_def)

lemma lowered_blank:
  "isSpace (toLowerCase_char c) = isSpace c"
  "(toLowerCase_char c = CHR '' '') = (c = CHR '' '')"
  "(toLowerCase_char c = CHR ''_'') = (c = CHR ''_'')"
  "(CHR ''_'' = toLowerCase_char c) = (c = CHR ''_'')"
proof -
  have space: "isSpace (CHR '' '')" by (simp add: isSpace_def)
  show "isSpace (toLowerCase_char c) = isSpace c"
    using lowered_char [of c] letters_not_blank by auto
  show "(toLowerCase_char c = CHR '' '') = (c = CHR '' '')"
    using lowered_char [of c] letters_not_blank space by metis
  show us: "(toLowerCase_char c = CHR ''_'') = (c = CHR ''_'')"
    using lowered_char [of c] letters_not_blank by metis
  then show "(CHR ''_'' = toLowerCase_char c) = (c = CHR ''_'')"
    by auto
qed

lemma single_spaced_lowered: "single_spaced t \<Longrightarrow> single_spaced (toLowerCase t)"
  by (induction t rule: single_spaced.induct) (auto simp: toLowerCase_def lowered_blank)

lemma underscore_lowered: "CHR ''_'' \<notin> set t \<Longrightarrow> CHR ''_'' \<notin> set (toLowerCase t)"
  by (induction t) (auto simp: toLowerCase_def lowered_blank)

lemma whitespace_runs_plain:
  "single_spaced s \<Longrightarrow> (inRun \<Longrightarrow> s = [] \<or> \<not> isSpace (hd s))
     \<Longrightarrow> whitespace_runs inRun s = map spaceToUnderscore s"
proof (induction s arbitrary: inRun rule: single_spaced.induct)
  case 1
  then show ?case by simp
next
  case (2 c)
  then show ?case by (auto simp: spaceToUnderscore_def isSpace_def)
next
  case (3 c d cs)
  have sp: "isSpace (CHR '' '')" by (simp add: isSpace_def)
  from "3.prems" have tail: "single_spaced (d # cs)" by simp
  show ?case
  proof (cases "isSpace c")
    case True
    with "3.prems" have c: "c = CHR '' ''" and d: "\<not> isSpace d" and run: "\<not> inRun" by auto
    from d have "whitespace_runs True (d # cs) = map spaceToUnderscore (d # cs)"
      by (intro "3.IH" tail) simp
    with True c run show ?thesis by (simp add: spaceToUnderscore_def)
  next
    case False
    then have "c \<noteq> CHR '' ''" using sp by auto
    moreover have "whitespace_runs False (d # cs) = map spaceToUnderscore (d # cs)"
      by (intro "3.IH" tail) simp
    ultimately show ?thesis using False by (simp add: spaceToUnderscore_def)
  qed
qed

lemma strip_after_underscores:
  "CHR ''_'' \<notin> set s \<Longrightarrow>
   stripNonIdentifier (map spaceToUnderscore s)
     = map spaceToUnderscore (filter (\<lambda>c. isLowerAZ c \<or> isDigit c \<or> c = CHR '' '') s)"
  by (induction s)
    (auto simp: stripNonIdentifier_def spaceToUnderscore_def isLowerAZ_def isDigit_def)

lemma basename_plain:
  assumes "plain_title t"
  shows "stripNonIdentifier (whitespaceToUnderscore (toLowerCase t)) = spec_basename t"
proof -
  from assms have "single_spaced (toLowerCase t)" and us: "CHR ''_'' \<notin> set (toLowerCase t)"
    by (simp_all add: plain_title_def single_spaced_lowered underscore_lowered)
  then have "whitespaceToUnderscore (toLowerCase t) = map spaceToUnderscore (toLowerCase t)"
    by (simp add: whitespaceToUnderscore_def whitespace_runs_plain)
  with us show ?thesis
    by (simp add: strip_after_underscores spec_basename_def)
qed

subsection \<open>Parser and renderer\<close>

lemma length_concat_singletons:
  "(\<And>x. x \<in> set xs \<Longrightarrow> length (f x) = 1) \<Longrightarrow> length (concat (map f xs)) = length xs"
  by (induction xs) auto

lemma length_section_testCases:
  assumes "\<forall>s \<in> set sections. trim s \<noteq> []"
  shows "length (concat (map (\<lambda>(index, sectionText).
                           if trim sectionText \<noteq> []
                           then [section_testCase now stamp sid fmt index sectionText]
                           else [])
                      (enumerate 0 sections))) = length sections"
proof -
  have "length (concat (map (\<lambda>(index, sectionText).
                           if trim sectionText \<noteq> []
                           then [section_testCase now stamp sid fmt index sectionText]
                           else [])
                      (enumerate 0 sections))) = length (enumerate 0 sections)"
  proof (rule length_concat_singletons)
    fix x
    assume "x \<in> set (enumerate 0 sections)"
    then have "snd x \<in> set (map snd (enumerate 0 sections))"
      by (simp only: set_map) (rule imageI)
    then have "snd x \<in> set sections"
      by (simp only: map_snd_enumerate)
    with assms show "length (case x of (index, sectionText) \<Rightarrow>
                           if trim sectionText \<noteq> []
                           then [section_testCase now stamp sid fmt index sectionText]
                           else []) = 1"
      by (cases x) auto
  qed
  then show ?thesis by simp
qed

lemma pytest_stamp_injective:
  "(generatePytestFile stamp1 testCase = generatePytestFile stamp2 testCase) = (stamp1 = stamp2)"
  by (simp add: generatePytestFile_def)

lemma pytest_header:
  \<open>\<exists>rest. generatePytestFile stamp testCase
           = ''"""'' @ nl @ title testCase @ nl @ description testCase @ nl @ nl
             @ ''Generated on: '' @ stamp @ nl @ ''"""'' @ nl @ rest\<close>
  by (simp add: generatePytestFile_def)

section \<open>The claims\<close>







text \<open>
  C3. For every response text \<open>parseAIResponse\<close> returns at least one test case: as many
  as the split on the markers \<open>Test Case N:\<close>, \<open>Scenario:\<close>, \<open>Feature:\<close> has sections
  that are not blank, and one when it has none. When no section is left (none that is not
  blank, and so also when none is not empty), the result is exactly the fallback test case:
  titled \<open>Generated Test Case\<close>, its content the response as it came, its steps empty.
\<close>

theorem parseAIResponse_at_least_one:
  "parseAIResponse now stamp response sid fmt \<noteq> []
   \<and> length (parseAIResponse now stamp response sid fmt)
       = max 1 (length (filter (\<lambda>s. trim s \<noteq> []) (split_markers response)))
   \<and> (filter (\<lambda>s. trim s \<noteq> []) (split_markers response) = [] \<longrightarrow>
        parseAIResponse now stamp response sid fmt
          = [\<lparr>id_tc = ''test_'' @ sid @ ''_'' @ string_of_nat (now 0),
               sessionId = sid,
               title = ''Generated Test Case'',
               description = ''AI-generated test case based on recorded interactions'',
               steps = [],
               format = fmt,
               content = response,
               createdAt = stamp 0\<rparr>])
   \<and> (filter (\<lambda>s. s \<noteq> []) (split_markers response) = [] \<longrightarrow>
        parseAIResponse now stamp response sid fmt
          = [\<lparr>id_tc = ''test_'' @ sid @ ''_'' @ string_of_nat (now 0),
               sessionId = sid,
               title = ''Generated Test Case'',
               description = ''AI-generated test case based on recorded interactions'',
               steps = [],
               format = fmt,
               content = response,
               createdAt = stamp 0\<rparr>])"
proof (intro conjI impI)
  show "parseAIResponse now stamp response sid fmt \<noteq> []"
    by (simp add: parseAIResponse_def Let_def)
next
  let ?sections = "filter (\<lambda>s. trim s \<noteq> []) (split_markers response)"
  define parsed where
    "parsed = concat (map (\<lambda>(index, sectionText).
                           if trim sectionText \<noteq> []
                           then [section_testCase now stamp sid fmt index sectionText]
                           else [])
                      (enumerate 0 ?sections))"
  have len: "length parsed = length ?sections"
    unfolding parsed_def by (rule length_section_testCases) simp
  have "parseAIResponse now stamp response sid fmt
          = (if length parsed = 0
             then parsed @ [fallback_testCase now stamp response sid fmt] else parsed)"
    by (simp add: parseAIResponse_def Let_def parsed_def)
  then show "length (parseAIResponse now stamp response sid fmt) = max 1 (length ?sections)"
    using len by (cases "length parsed = 0") (simp_all add: max_def Suc_le_eq)
next
  assume "filter (\<lambda>s. trim s \<noteq> []) (split_markers response) = []"
  then show "parseAIResponse now stamp response sid fmt
          = [\<lparr>id_tc = ''test_'' @ sid @ ''_'' @ string_of_nat (now 0),
               sessionId = sid,
               title = ''Generated Test Case'',
               description = ''AI-generated test case based on recorded interactions'',
               steps = [],
               format = fmt,
               content = response,
               createdAt = stamp 0\<rparr>]"
    by (simp add: parseAIResponse_def fallback_testCase_def)
next
  assume "filter (\<lambda>s. s \<noteq> []) (split_markers response) = []"
  then have "\<forall>s \<in> set (split_markers response). s = []"
    by (simp add: filter_empty_conv)
  then have "filter (\<lambda>s. trim s \<noteq> []) (split_markers response) = []"
    by (auto simp: filter_empty_conv trim_def)
  then show "parseAIResponse now stamp response sid fmt
          = [\<lparr>id_tc = ''test_'' @ sid @ ''_'' @ string_of_nat (now 0),
               sessionId = sid,
               title = ''Generated Test Case'',
               description = ''AI-generated test case based on recorded interactions'',
               steps = [],
               format = fmt,
               content = response,
               createdAt = stamp 0\<rparr>]"
    by (simp add: parseAIResponse_def fallback_testCase_def)
qed

text \<open>
  A response that is a marker and a space has two blank sections; the empty response has
  one section, the empty string.
\<close>

theorem parseAIResponse_at_least_one_witness:
  "filter (\<lambda>s. trim s \<noteq> []) (split_markers ''Scenario: '') = []
   \<and> parseAIResponse (\<lambda>i. 1700000030000 + i) (\<lambda>i. ''2023-11-14T22:13:50.000Z'') ''Scenario: ''
        ''session_1700000000000'' ''gherkin''
      = [\<lparr>id_tc = ''test_session_1700000000000_1700000030000'',
           sessionId = ''session_1700000000000'',
           title = ''Generated Test Case'',
           description = ''AI-generated test case based on recorded interactions'',
           steps = [],
           format = ''gherkin'',
           content = ''Scenario: '',
           createdAt = ''2023-11-14T22:13:50.000Z''\<rparr>]
   \<and> filter (\<lambda>s. s \<noteq> []) (split_markers []) = []
   \<and> parseAIResponse (\<lambda>i. 1700000030000 + i) (\<lambda>i. ''2023-11-14T22:13:50.000Z'') []
        ''session_1700000000000'' ''pytest''
      = [\<lparr>id_tc = ''test_session_1700000000000_1700000030000'',
           sessionId = ''session_1700000000000'',
           title = ''Generated Test Case'',
           description = ''AI-generated test case based on recorded interactions'',
           steps = [],
           format = ''pytest'',
           content = [],
           createdAt = ''2023-11-14T22:13:50.000Z''\<rparr>]"
proof -
  have blank: "filter (\<lambda>s. trim s \<noteq> []) (split_markers ''Scenario: '') = []"
    by (simp add: split_markers_def match_marker_def startsWith_def trim_def isSpace_def)
  have empty: "filter (\<lambda>s. s \<noteq> []) (split_markers []) = []"
    by (simp add: split_markers_def)
  have digits: "string_of_nat 1700000030000 = ''1700000030000''"
    by (simp add: string_of_nat.simps digit_char_def)
  from blank digits
    parseAIResponse_at_least_one [of "\<lambda>i. 1700000030000 + i" "\<lambda>i. ''2023-11-14T22:13:50.000Z''"
      "''Scenario: ''" "''session_1700000000000''" "''gherkin''"]
  have "parseAIResponse (\<lambda>i. 1700000030000 + i) (\<lambda>i. ''2023-11-14T22:13:50.000Z'') ''Scenario: ''
        ''session_1700000000000'' ''gherkin''
      = [\<lparr>id_tc = ''test_session_1700000000000_1700000030000'',
           sessionId = ''session_1700000000000'',
           title = ''Generated Test Case'',
           description = ''AI-generated test case based on recorded interactions'',
           steps = [],
           format = ''gherkin'',
           content = ''Scenario: '',
           createdAt = ''2023-11-14T22:13:50.000Z''\<rparr>]"
    by simp
  moreover from empty digits
    parseAIResponse_at_least_one [of "\<lambda>i. 1700000030000 + i" "\<lambda>i. ''2023-11-14T22:13:50.000Z''"
      "[]" "''session_1700000000000''" "''pytest''"]
  have "parseAIResponse (\<lambda>i. 1700000030000 + i) (\<lambda>i. ''2023-11-14T22:13:50.000Z'') []
        ''session_1700000000000'' ''pytest''
      = [\<lparr>id_tc = ''test_session_1700000000000_1700000030000'',
           sessionId = ''session_1700000000000'',
           title = ''Generated Test Case'',
           description = ''AI-generated test case based on recorded interactions'',
           steps = [],
           format = ''pytest'',
           content = [],
           createdAt = ''2023-11-14T22:13:50.000Z''\<rparr>]"
    by simp
  ultimately show ?thesis
    using blank empty by simp
qed

text \<open>
  C4. The invariant "\<open>endTime\<close> is set if and only if the status is \<open>processing\<close> or
  \<open>completed\<close>" holds for the held session and for every saved session after
  \<open>startRecording\<close> and any sequence of calls that follows the state machine: pause and
  resume only while the held session is recording or paused, completion of the held
  session only once it is processing; stop and the two record calls at any time.
\<close>

theorem endTime_invariant_in_protocol:
  assumes "sessions_ok st"
    and "startRecording now stamp opened u uid st = Inr (s0, st0)"
    and "run_in_protocol calls st0"
  shows "sessions_ok (run calls st0)
         \<and> (\<forall>s. currentSession (run calls st0) = Some s \<longrightarrow> endTime_invariant s)
         \<and> (\<forall>s. SessionSaved s \<in> set (effects (run calls st0)) \<longrightarrow> endTime_invariant s)"
proof -
  have "st0 = perform (StartRecording now stamp opened u uid) st"
    using assms(2) by simp
  then have "sessions_ok st0"
    using perform_keeps_invariant [OF assms(1), of "StartRecording now stamp opened u uid"]
    by simp
  then have ok: "sessions_ok (run calls st0)"
    using assms(3) by (rule run_keeps_invariant)
  then show ?thesis
    by (auto simp: sessions_ok_def saved_ok_all)
qed

text \<open>Start, pause, resume, stop, complete: in protocol, and the invariant holds at the end.\<close>

theorem endTime_invariant_in_protocol_witness:
  "sessions_ok newRecordingService
   \<and> run_in_protocol
        [PauseRecording, ResumeRecording, StopRecording ''2023-11-14T22:13:24.000Z'',
         CompleteSession ''session_1700000000000'']
        (run [example_start] newRecordingService)
   \<and> sessions_ok
        (run [PauseRecording, ResumeRecording, StopRecording ''2023-11-14T22:13:24.000Z'',
              CompleteSession ''session_1700000000000'']
           (run [example_start] newRecordingService))
   \<and> effects
        (run [PauseRecording, ResumeRecording, StopRecording ''2023-11-14T22:13:24.000Z'',
              CompleteSession ''session_1700000000000'']
           (run [example_start] newRecordingService)) \<noteq> []"
proof -
  let ?s0 = "\<lparr>id_s = ''session_1700000000000'', userId = ''user_1'', url = ''https://example.com'',
               status = Recording, startTime = ''2023-11-14T22:13:20.000Z'',
               endTime = None, interactions = [], apiCalls = [], testCases = None\<rparr>"
  let ?calls = "[PauseRecording, ResumeRecording, StopRecording ''2023-11-14T22:13:24.000Z'',
         CompleteSession ''session_1700000000000'']"
  have ok: "sessions_ok newRecordingService"
    by (simp add: sessions_ok_def newRecordingService_def)
  have started: "startRecording 1700000000000 ''2023-11-14T22:13:20.000Z'' (Some \<lparr>closed = False\<rparr>)
       ''https://example.com'' ''user_1'' newRecordingService
       = Inr (?s0, run [example_start] newRecordingService)"
    by (simp add: eval_defs)
  have proto: "run_in_protocol ?calls (run [example_start] newRecordingService)"
    by (simp add: eval_defs)
  have "effects (run ?calls (run [example_start] newRecordingService)) \<noteq> []"
    by (simp add: eval_defs)
  then show ?thesis
    using ok proto endTime_invariant_in_protocol [OF ok started proto] by simp
qed

text \<open>
  Over all sequences of the four lifecycle calls the invariant fails: a pause after a
  stop leaves a \<open>stopped\<close> session whose \<open>endTime\<close> is set, and a completion without
  a stop saves a \<open>completed\<close> session that has none.
\<close>

theorem endTime_invariant_counterexample:
  "map_option (\<lambda>s. (status s, endTime s))
     (currentSession
        (run [example_start, StopRecording ''2023-11-14T22:13:24.000Z'', PauseRecording]
           newRecordingService))
     = Some (Stopped, Some ''2023-11-14T22:13:24.000Z'')
   \<and> map_option endTime_invariant
     (currentSession
        (run [example_start, StopRecording ''2023-11-14T22:13:24.000Z'', PauseRecording]
           newRecordingService))
     = Some False
   \<and> last (effects (run [example_start, CompleteSession ''session_1700000000000''] newRecordingService))
     = SessionSaved
         \<lparr>id_s = ''session_1700000000000'', userId = ''user_1'', url = ''https://example.com'',
          status = Completed, startTime = ''2023-11-14T22:13:20.000Z'',
          endTime = None, interactions = [], apiCalls = [], testCases = None\<rparr>"
  by (simp add: eval_defs endTime_invariant_def)

text \<open>
  C5. The interactions and API calls of a session are append-only, in the order of
  arrival. While a session is held, \<open>recordInteraction\<close> and \<open>recordApiCall\<close> put the
  record at the end of its list and leave the other list alone; after any sequence of
  record, pause, resume, stop and complete calls, the held session's lists are the old
  lists followed by the records of the sequence in call order; the session
  \<open>stopRecording\<close> hands over and the one \<open>completeSession\<close> saves carry the lists
  unchanged; and whatever is called, a new start included, what has been saved stays
  saved as it was.
\<close>

theorem records_append_only:
  "(currentSession st = Some s \<longrightarrow>
      currentSession (recordInteraction interaction st)
        = Some (s\<lparr>interactions := interactions s @ [interaction]\<rparr>)
      \<and> currentSession (recordApiCall apiCall st)
        = Some (s\<lparr>apiCalls := apiCalls s @ [apiCall]\<rparr>))
   \<and> (\<not> list_ex is_start calls \<and> currentSession st = Some s
        \<and> currentSession (run calls st) = Some s' \<longrightarrow>
      interactions s' = interactions s @ recorded_interactions calls
      \<and> apiCalls s' = apiCalls s @ recorded_apiCalls calls)
   \<and> (currentSession st = Some s \<and> fst (stopRecording stamp st) = Some handed \<longrightarrow>
      interactions handed = interactions s \<and> apiCalls handed = apiCalls s)
   \<and> (currentSession st = Some s \<and> id_s s = sid \<longrightarrow>
      effects (completeSession sid st) = effects st @ [SessionSaved (s\<lparr>status := Completed\<rparr>)])
   \<and> (\<exists>es. effects (run anyCalls st) = effects st @ es)"
proof (intro conjI impI)
  show "\<exists>es. effects (run anyCalls st) = effects st @ es"
    by (rule run_effects_extend)
next
  assume "currentSession st = Some s"
  then show "currentSession (recordInteraction interaction st)
        = Some (s\<lparr>interactions := interactions s @ [interaction]\<rparr>)"
    by (simp add: recordInteraction_def)
next
  assume "currentSession st = Some s"
  then show "currentSession (recordApiCall apiCall st)
        = Some (s\<lparr>apiCalls := apiCalls s @ [apiCall]\<rparr>)"
    by (simp add: recordApiCall_def)
next
  assume h: "\<not> list_ex is_start calls \<and> currentSession st = Some s
        \<and> currentSession (run calls st) = Some s'"
  then show "interactions s' = interactions s @ recorded_interactions calls"
    using run_appends [of calls st s s'] by simp
  from h show "apiCalls s' = apiCalls s @ recorded_apiCalls calls"
    using run_appends [of calls st s s'] by simp
next
  assume h: "currentSession st = Some s \<and> fst (stopRecording stamp st) = Some handed"
  then show "interactions handed = interactions s"
    by (auto simp: stopRecording_def Let_def saveSessionToDatabase_def split: if_splits)
  from h show "apiCalls handed = apiCalls s"
    by (auto simp: stopRecording_def Let_def saveSessionToDatabase_def split: if_splits)
next
  assume "currentSession st = Some s \<and> id_s s = sid"
  then show "effects (completeSession sid st) = effects st @ [SessionSaved (s\<lparr>status := Completed\<rparr>)]"
    by (simp add: completeSession_def saveSessionToDatabase_def Let_def)
qed

text \<open>
  A click, a pause, an API call, a resume, an input, a stop; one record call of each kind;
  a stop and a completion after one click.
\<close>

theorem records_append_only_witness:
  "map_option interactions
     (currentSession
        (run [RecordInteraction example_click, PauseRecording, RecordApiCall example_apiCall,
              ResumeRecording, RecordInteraction example_input,
              StopRecording ''2023-11-14T22:13:24.000Z'']
           (run [example_start] newRecordingService)))
     = Some [example_click, example_input]
   \<and> map_option apiCalls
     (currentSession
        (run [RecordInteraction example_click, PauseRecording, RecordApiCall example_apiCall,
              ResumeRecording, RecordInteraction example_input,
              StopRecording ''2023-11-14T22:13:24.000Z'']
           (run [example_start] newRecordingService)))
     = Some [example_apiCall]
   \<and> map_option interactions
     (currentSession (recordInteraction example_click (run [example_start] newRecordingService)))
     = Some [example_click]
   \<and> map_option apiCalls
     (currentSession (recordApiCall example_apiCall (run [example_start] newRecordingService)))
     = Some [example_apiCall]
   \<and> map_option interactions
     (fst (stopRecording ''2023-11-14T22:13:24.000Z''
             (run [example_start, RecordInteraction example_click] newRecordingService)))
     = Some [example_click]
   \<and> last (effects (completeSession ''session_1700000000000''
                      (run [example_start, RecordInteraction example_click] newRecordingService)))
     = SessionSaved
         \<lparr>id_s = ''session_1700000000000'', userId = ''user_1'', url = ''https://example.com'',
          status = Completed, startTime = ''2023-11-14T22:13:20.000Z'',
          endTime = None, interactions = [example_click], apiCalls = [], testCases = None\<rparr>"
proof -
  let ?st = "run [example_start] newRecordingService"
  let ?st1 = "run [example_start, RecordInteraction example_click] newRecordingService"
  let ?calls = "[RecordInteraction example_click, PauseRecording, RecordApiCall example_apiCall,
              ResumeRecording, RecordInteraction example_input,
              StopRecording ''2023-11-14T22:13:24.000Z'']"
  let ?s0 = "\<lparr>id_s = ''session_1700000000000'', userId = ''user_1'', url = ''https://example.com'',
               status = Recording, startTime = ''2023-11-14T22:13:20.000Z'',
               endTime = None, interactions = [], apiCalls = [], testCases = None\<rparr>"
  let ?s1 = "?s0\<lparr>interactions := [example_click]\<rparr>"
  have held: "currentSession ?st = Some ?s0"
    by (simp add: eval_defs)
  have held1: "currentSession ?st1 = Some ?s1"
    by (simp add: eval_defs)
  have sid: "id_s ?s1 = ''session_1700000000000''"
    by simp
  have nostart: "\<not> list_ex is_start ?calls"
    by simp
  have "\<exists>s'. currentSession (run ?calls ?st) = Some s'"
    by (simp add: eval_defs)
  then obtain s' where final: "currentSession (run ?calls ?st) = Some s'" ..
  have "\<exists>h. fst (stopRecording ''2023-11-14T22:13:24.000Z'' ?st1) = Some h"
    by (simp add: eval_defs)
  then obtain h where handed: "fst (stopRecording ''2023-11-14T22:13:24.000Z'' ?st1) = Some h" ..
  from records_append_only [where st = ?st and s = ?s0 and calls = ?calls and s' = s']
    held nostart final
  have "interactions s' = [] @ recorded_interactions ?calls"
    and "apiCalls s' = [] @ recorded_apiCalls ?calls"
    by simp_all
  with final have sequence:
    "map_option interactions (currentSession (run ?calls ?st)) = Some [example_click, example_input]"
    "map_option apiCalls (currentSession (run ?calls ?st)) = Some [example_apiCall]"
    by simp_all
  from records_append_only [where st = ?st and s = ?s0 and interaction = example_click
      and apiCall = example_apiCall] held
  have single:
    "map_option interactions (currentSession (recordInteraction example_click ?st)) = Some [example_click]"
    "map_option apiCalls (currentSession (recordApiCall example_apiCall ?st)) = Some [example_apiCall]"
    by simp_all
  from records_append_only [where st = ?st1 and s = ?s1 and handed = h
      and stamp = "''2023-11-14T22:13:24.000Z''"] held1 handed
  have "interactions h = [example_click]"
    by simp
  with handed have stopped:
    "map_option interactions (fst (stopRecording ''2023-11-14T22:13:24.000Z'' ?st1)) = Some [example_click]"
    by simp
  from records_append_only [where st = ?st1 and s = ?s1 and sid = "''session_1700000000000''"]
    held1 sid
  have "effects (completeSession ''session_1700000000000'' ?st1)
          = effects ?st1 @ [SessionSaved (?s1\<lparr>status := Completed\<rparr>)]"
    by blast
  then have completed:
    "last (effects (completeSession ''session_1700000000000'' ?st1))
       = SessionSaved (?s1\<lparr>status := Completed\<rparr>)"
    by simp
  from sequence single stopped completed show ?thesis
    by simp
qed

text \<open>
  C6. The rendered text is a function of the test case and, for pytest, of the time of
  the call, which the pytest template prints in its header (\<open>Generated on:\<close>). For any
  format but pytest two calls on the same test case give the same text whatever the
  time; for pytest they give the same text exactly when the two time stamps are equal.
\<close>

theorem generateFileContent_deterministic_up_to_stamp:
  \<open>(format testCase \<noteq> ''pytest'' \<longrightarrow>
      generateFileContent stamp1 testCase = generateFileContent stamp2 testCase)
   \<and> (format testCase = ''pytest'' \<longrightarrow>
      (generateFileContent stamp1 testCase = generateFileContent stamp2 testCase)
        = (stamp1 = stamp2))
   \<and> (format testCase = ''pytest'' \<longrightarrow>
      (\<exists>rest. generateFileContent stamp1 testCase
           = ''"""'' @ nl @ title testCase @ nl @ description testCase @ nl @ nl
             @ ''Generated on: '' @ stamp1 @ nl @ ''"""'' @ nl @ rest))\<close>
proof (intro conjI impI)
  assume "format testCase \<noteq> ''pytest''"
  then show "generateFileContent stamp1 testCase = generateFileContent stamp2 testCase"
    by (simp add: generateFileContent_def)
next
  assume "format testCase = ''pytest''"
  then show "(generateFileContent stamp1 testCase = generateFileContent stamp2 testCase)
        = (stamp1 = stamp2)"
    by (simp add: generateFileContent_def pytest_stamp_injective)
next
  assume "format testCase = ''pytest''"
  then have "generateFileContent stamp1 testCase = generatePytestFile stamp1 testCase"
    by (simp add: generateFileContent_def)
  then show \<open>\<exists>rest. generateFileContent stamp1 testCase
           = ''"""'' @ nl @ title testCase @ nl @ description testCase @ nl @ nl
             @ ''Generated on: '' @ stamp1 @ nl @ ''"""'' @ nl @ rest\<close>
    using pytest_header [of stamp1 testCase] by simp
qed

text \<open>The same test case at two times: as gherkin, as selenium_bdd, as pytest.\<close>

theorem generateFileContent_deterministic_up_to_stamp_witness:
  "generateFileContent ''2023-11-14T22:14:00.000Z'' (example_testCase\<lparr>format := ''gherkin''\<rparr>)
     = generateFileContent ''2023-11-14T22:14:05.250Z'' (example_testCase\<lparr>format := ''gherkin''\<rparr>)
   \<and> generateFileContent ''2023-11-14T22:14:00.000Z'' (example_testCase\<lparr>format := ''selenium_bdd''\<rparr>)
     = generateFileContent ''2023-11-14T22:14:05.250Z'' (example_testCase\<lparr>format := ''selenium_bdd''\<rparr>)
   \<and> generateFileContent ''2023-11-14T22:14:00.000Z'' example_testCase
     \<noteq> generateFileContent ''2023-11-14T22:14:00.001Z'' example_testCase"
proof -
  have g: "format (example_testCase\<lparr>format := ''gherkin''\<rparr>) \<noteq> ''pytest''"
    and b: "format (example_testCase\<lparr>format := ''selenium_bdd''\<rparr>) \<noteq> ''pytest''"
    and p: "format example_testCase = ''pytest''"
    by (simp_all add: example_testCase_def)
  from g generateFileContent_deterministic_up_to_stamp
    [of "example_testCase\<lparr>format := ''gherkin''\<rparr>"
      "''2023-11-14T22:14:00.000Z''" "''2023-11-14T22:14:05.250Z''"]
  have "generateFileContent ''2023-11-14T22:14:00.000Z'' (example_testCase\<lparr>format := ''gherkin''\<rparr>)
     = generateFileContent ''2023-11-14T22:14:05.250Z'' (example_testCase\<lparr>format := ''gherkin''\<rparr>)"
    by blast
  moreover from b generateFileContent_deterministic_up_to_stamp
    [of "example_testCase\<lparr>format := ''selenium_bdd''\<rparr>"
      "''2023-11-14T22:14:00.000Z''" "''2023-11-14T22:14:05.250Z''"]
  have "generateFileContent ''2023-11-14T22:14:00.000Z'' (example_testCase\<lparr>format := ''selenium_bdd''\<rparr>)
     = generateFileContent ''2023-11-14T22:14:05.250Z'' (example_testCase\<lparr>format := ''selenium_bdd''\<rparr>)"
    by blast
  moreover have "''2023-11-14T22:14:00.000Z'' \<noteq> ''2023-11-14T22:14:00.001Z''"
    by simp
  with p generateFileContent_deterministic_up_to_stamp
    [of example_testCase "''2023-11-14T22:14:00.000Z''" "''2023-11-14T22:14:00.001Z''"]
  have "generateFileContent ''2023-11-14T22:14:00.000Z'' example_testCase
     \<noteq> generateFileContent ''2023-11-14T22:14:00.001Z'' example_testCase"
    by blast
  ultimately show ?thesis by blast
qed

text \<open>Two pytest renderings of one test case, five seconds apart, differ.\<close>

theorem generateFileContent_pytest_counterexample:
  "generateFileContent ''2023-11-14T22:14:00.000Z'' example_testCase
     \<noteq> generateFileContent ''2023-11-14T22:14:05.250Z'' example_testCase"
proof -
  have "format example_testCase = ''pytest''"
    by (simp add: example_testCase_def)
  then show ?thesis
    by (simp add: generateFileContent_def pytest_stamp_injective)
qed




text \<open>
  C8. \<open>generateGherkinSteps\<close> renders every step by a keyword match on the lower-cased
  action, the first match in this order: \<open>click\<close> gives a \<open>When I click on\<close> clause,
  \<open>input\<close> or \<open>type\<close> a \<open>When I enter\<close> clause, \<open>navigate\<close> a \<open>Given I navigate to\<close>
  clause, and any other action the fallback \<open>And I\<close> with the lower-cased action. An
  action that contains a keyword as written contains it lower-cased too. The clauses are
  joined by line breaks between a fixed first line and two fixed last lines.
\<close>

theorem gherkinStep_classification:
  \<open>(includes_str (toLowerCase (action step)) ''click'' \<longrightarrow>
      gherkinStep step = ''    When I click on "'' @ element step @ ''"'')
   \<and> (\<not> includes_str (toLowerCase (action step)) ''click''
        \<and> (includes_str (toLowerCase (action step)) ''input''
             \<or> includes_str (toLowerCase (action step)) ''type'') \<longrightarrow>
      gherkinStep step
        = ''    When I enter "'' @ value_or (value_st step) ''test data''
          @ ''" in "'' @ element step @ ''"'')
   \<and> (\<not> includes_str (toLowerCase (action step)) ''click''
        \<and> \<not> includes_str (toLowerCase (action step)) ''input''
        \<and> \<not> includes_str (toLowerCase (action step)) ''type''
        \<and> includes_str (toLowerCase (action step)) ''navigate'' \<longrightarrow>
      gherkinStep step = ''    Given I navigate to "'' @ value_or (value_st step) ''the page'' @ ''"'')
   \<and> (\<not> includes_str (toLowerCase (action step)) ''click''
        \<and> \<not> includes_str (toLowerCase (action step)) ''input''
        \<and> \<not> includes_str (toLowerCase (action step)) ''type''
        \<and> \<not> includes_str (toLowerCase (action step)) ''navigate'' \<longrightarrow>
      gherkinStep step = ''    And I '' @ toLowerCase (action step))
   \<and> (includes_str (action step) ''click'' \<longrightarrow> includes_str (toLowerCase (action step)) ''click'')
   \<and> (includes_str (action step) ''input'' \<longrightarrow> includes_str (toLowerCase (action step)) ''input'')
   \<and> (includes_str (action step) ''type'' \<longrightarrow> includes_str (toLowerCase (action step)) ''type'')
   \<and> (includes_str (action step) ''navigate'' \<longrightarrow>
        includes_str (toLowerCase (action step)) ''navigate'')
   \<and> generateGherkinSteps testCase
       = ''Given I am on the application page'' @ nl
         @ ''    '' @ join_str nl (map gherkinStep (steps testCase)) @ nl
         @ ''    Then I should see the expected results'' @ nl
         @ ''    And the page should be displayed correctly''\<close>
proof (intro conjI impI)
  show \<open>generateGherkinSteps testCase
       = ''Given I am on the application page'' @ nl
         @ ''    '' @ join_str nl (map gherkinStep (steps testCase)) @ nl
         @ ''    Then I should see the expected results'' @ nl
         @ ''    And the page should be displayed correctly''\<close>
    by (simp add: generateGherkinSteps_def Let_def)
qed (simp_all add: gherkinStep_def includes_lowered keywords_lower)

text \<open>One step of each kind, and an action that contains a keyword as written.\<close>

theorem gherkinStep_classification_witness:
  \<open>gherkinStep \<lparr>id_st = ''step_0'', action = ''1. Click the buy button'', element = ''#buy'',
                 value_st = None, expected = None\<rparr>
     = ''    When I click on "#buy"''
   \<and> gherkinStep \<lparr>id_st = ''step_1'', action = ''2. Type the quantity'', element = ''#quantity'',
                 value_st = Some ''42'', expected = None\<rparr>
     = ''    When I enter "42" in "#quantity"''
   \<and> gherkinStep \<lparr>id_st = ''step_2'', action = ''Given I navigate home'', element = [],
                 value_st = None, expected = None\<rparr>
     = ''    Given I navigate to "the page"''
   \<and> gherkinStep \<lparr>id_st = ''step_3'', action = ''Then the cart is shown'', element = [],
                 value_st = None, expected = None\<rparr>
     = ''    And I then the cart is shown''
   \<and> includes_str
        (toLowerCase (action \<lparr>id_st = ''step_4'', action = ''Then click Save'', element = [],
                               value_st = None, expected = None\<rparr>)) ''click''\<close>
proof -
  let ?click = "\<lparr>id_st = ''step_0'', action = ''1. Click the buy button'', element = ''#buy'',
                 value_st = None, expected = None\<rparr>"
  let ?enter = "\<lparr>id_st = ''step_1'', action = ''2. Type the quantity'', element = ''#quantity'',
                 value_st = Some ''42'', expected = None\<rparr>"
  let ?navigate = "\<lparr>id_st = ''step_2'', action = ''Given I navigate home'', element = [],
                 value_st = None, expected = None\<rparr>"
  let ?other = "\<lparr>id_st = ''step_3'', action = ''Then the cart is shown'', element = [],
                 value_st = None, expected = None\<rparr>"
  have k1: "includes_str (toLowerCase (action ?click)) ''click''"
    by code_simp
  have k2: "\<not> includes_str (toLowerCase (action ?enter)) ''click''
            \<and> (includes_str (toLowerCase (action ?enter)) ''input''
                 \<or> includes_str (toLowerCase (action ?enter)) ''type'')"
    by code_simp
  have k3: "\<not> includes_str (toLowerCase (action ?navigate)) ''click''
            \<and> \<not> includes_str (toLowerCase (action ?navigate)) ''input''
            \<and> \<not> includes_str (toLowerCase (action ?navigate)) ''type''
            \<and> includes_str (toLowerCase (action ?navigate)) ''navigate''"
    by code_simp
  have k4: "\<not> includes_str (toLowerCase (action ?other)) ''click''
            \<and> \<not> includes_str (toLowerCase (action ?other)) ''input''
            \<and> \<not> includes_str (toLowerCase (action ?other)) ''type''
            \<and> \<not> includes_str (toLowerCase (action ?other)) ''navigate''"
    by code_simp
  have low: "toLowerCase ''Then the cart is shown'' = ''then the cart is shown''"
    by code_simp
  from k1 gherkinStep_classification [of ?click]
  have \<open>gherkinStep ?click = ''    When I click on "'' @ element ?click @ ''"''\<close>
    by blast
  moreover from k2 gherkinStep_classification [of ?enter]
  have \<open>gherkinStep ?enter
        = ''    When I enter "'' @ value_or (value_st ?enter) ''test data''
          @ ''" in "'' @ element ?enter @ ''"''\<close>
    by blast
  moreover from k3 gherkinStep_classification [of ?navigate]
  have \<open>gherkinStep ?navigate
        = ''    Given I navigate to "'' @ value_or (value_st ?navigate) ''the page'' @ ''"''\<close>
    by blast
  moreover from k4 gherkinStep_classification [of ?other]
  have \<open>gherkinStep ?other = ''    And I '' @ toLowerCase (action ?other)\<close>
    by blast
  moreover have "includes_str (action \<lparr>id_st = ''step_4'', action = ''Then click Save'',
                     element = [], value_st = None, expected = None\<rparr>) ''click''"
    by code_simp
  with gherkinStep_classification
    [of "\<lparr>id_st = ''step_4'', action = ''Then click Save'', element = [],
          value_st = None, expected = None\<rparr>"]
  have "includes_str
        (toLowerCase (action \<lparr>id_st = ''step_4'', action = ''Then click Save'', element = [],
                               value_st = None, expected = None\<rparr>)) ''click''"
    by blast
  ultimately show ?thesis
    by (simp add: value_or_def low)
qed

text \<open>
  The match is not on the action text as written: \<open>1. Click the buy button\<close> contains
  none of the four keywords, and is rendered as a click, not as the fallback.
\<close>

theorem gherkinStep_capital_counterexample:
  \<open>\<not> includes_str ''1. Click the buy button'' ''click''
   \<and> \<not> includes_str ''1. Click the buy button'' ''input''
   \<and> \<not> includes_str ''1. Click the buy button'' ''type''
   \<and> \<not> includes_str ''1. Click the buy button'' ''navigate''
   \<and> gherkinStep \<lparr>id_st = ''step_0'', action = ''1. Click the buy button'', element = ''#buy'',
                   value_st = None, expected = None\<rparr>
       = ''    When I click on "#buy"''
   \<and> gherkinStep \<lparr>id_st = ''step_0'', action = ''1. Click the buy button'', element = ''#buy'',
                   value_st = None, expected = None\<rparr>
       \<noteq> ''    And I 1. click the buy button''\<close>
  by code_simp

text \<open>
  C9. The file name is a function of title and format: the base name is the title
  lower-cased, with every run of whitespace replaced by one underscore and then every
  character but a to z, 0 to 9 and the underscore removed; the name is \<open>test_\<close>, base
  and \<open>.py\<close> for pytest, base and \<open>.feature\<close> for selenium_bdd and gherkin, base and
  \<open>.txt\<close> for any other format. On a title without underscore and with no whitespace
  but single spaces the base name is the one of the claim's words.
\<close>

theorem generateFilename_derivation:
  "generateFilename testCase
     = (if format testCase = ''pytest''
        then ''test_'' @ stripNonIdentifier (whitespaceToUnderscore (toLowerCase (title testCase))) @ ''.py''
        else if format testCase = ''selenium_bdd'' \<or> format testCase = ''gherkin''
        then stripNonIdentifier (whitespaceToUnderscore (toLowerCase (title testCase))) @ ''.feature''
        else stripNonIdentifier (whitespaceToUnderscore (toLowerCase (title testCase))) @ ''.txt'')
   \<and> (\<forall>c \<in> set (stripNonIdentifier (whitespaceToUnderscore (toLowerCase (title testCase)))).
         isLowerAZ c \<or> isDigit c \<or> c = CHR ''_'')
   \<and> (plain_title (title testCase) \<longrightarrow>
         stripNonIdentifier (whitespaceToUnderscore (toLowerCase (title testCase)))
           = spec_basename (title testCase))
   \<and> (plain_title (title testCase)
        \<and> (format testCase = ''selenium_bdd'' \<or> format testCase = ''gherkin'') \<longrightarrow>
         generateFilename testCase = spec_filename testCase)
   \<and> (plain_title (title testCase) \<and> format testCase = ''pytest'' \<longrightarrow>
         generateFilename testCase = ''test_'' @ spec_filename testCase)"
proof (intro conjI impI)
  show "generateFilename testCase
     = (if format testCase = ''pytest''
        then ''test_'' @ stripNonIdentifier (whitespaceToUnderscore (toLowerCase (title testCase))) @ ''.py''
        else if format testCase = ''selenium_bdd'' \<or> format testCase = ''gherkin''
        then stripNonIdentifier (whitespaceToUnderscore (toLowerCase (title testCase))) @ ''.feature''
        else stripNonIdentifier (whitespaceToUnderscore (toLowerCase (title testCase))) @ ''.txt'')"
    by (simp add: generateFilename_def Let_def)
next
  show "\<forall>c \<in> set (stripNonIdentifier (whitespaceToUnderscore (toLowerCase (title testCase)))).
         isLowerAZ c \<or> isDigit c \<or> c = CHR ''_''"
    by (simp add: stripNonIdentifier_def)
next
  assume "plain_title (title testCase)"
  then show "stripNonIdentifier (whitespaceToUnderscore (toLowerCase (title testCase)))
           = spec_basename (title testCase)"
    by (rule basename_plain)
next
  assume "plain_title (title testCase)
        \<and> (format testCase = ''selenium_bdd'' \<or> format testCase = ''gherkin'')"
  then show "generateFilename testCase = spec_filename testCase"
    by (auto simp: generateFilename_def spec_filename_def Let_def basename_plain)
next
  assume "plain_title (title testCase) \<and> format testCase = ''pytest''"
  then show "generateFilename testCase = ''test_'' @ spec_filename testCase"
    by (simp add: generateFilename_def spec_filename_def Let_def basename_plain)
qed

text \<open>The title \<open>Checkout Flow\<close> as pytest and as gherkin.\<close>

theorem generateFilename_derivation_witness:
  "generateFilename example_testCase = ''test_checkout_flow.py''
   \<and> generateFilename (example_testCase\<lparr>format := ''gherkin''\<rparr>) = ''checkout_flow.feature''
   \<and> spec_filename (example_testCase\<lparr>format := ''gherkin''\<rparr>) = ''checkout_flow.feature''
   \<and> plain_title (title example_testCase)"
proof -
  have plain: "plain_title (title example_testCase)"
    by code_simp
  have base: "stripNonIdentifier (whitespaceToUnderscore (toLowerCase (title example_testCase)))
                = ''checkout_flow''"
    by code_simp
  have fmt: "format example_testCase = ''pytest''"
    "format (example_testCase\<lparr>format := ''gherkin''\<rparr>) = ''gherkin''"
    "title (example_testCase\<lparr>format := ''gherkin''\<rparr>) = title example_testCase"
    by (simp_all add: example_testCase_def)
  from generateFilename_derivation [of example_testCase] fmt(1) base
  have "generateFilename example_testCase = ''test_checkout_flow.py''"
    by simp
  moreover from generateFilename_derivation [of "example_testCase\<lparr>format := ''gherkin''\<rparr>"] fmt base
  have "generateFilename (example_testCase\<lparr>format := ''gherkin''\<rparr>) = ''checkout_flow.feature''"
    by simp
  moreover have "plain_title (title (example_testCase\<lparr>format := ''gherkin''\<rparr>))
      \<and> (format (example_testCase\<lparr>format := ''gherkin''\<rparr>) = ''selenium_bdd''
           \<or> format (example_testCase\<lparr>format := ''gherkin''\<rparr>) = ''gherkin'')"
    using plain by simp
  with generateFilename_derivation [of "example_testCase\<lparr>format := ''gherkin''\<rparr>"]
  have "generateFilename (example_testCase\<lparr>format := ''gherkin''\<rparr>)
          = spec_filename (example_testCase\<lparr>format := ''gherkin''\<rparr>)"
    by blast
  ultimately show ?thesis using plain by simp
qed

text \<open>
  The claim's words give \<open>mylogin__test.py\<close> for the pytest title \<open>My_Login  Test\<close>;
  the code keeps the underscore, joins the two spaces and puts \<open>test_\<close> in front. A
  format outside the three gets \<open>.txt\<close>.
\<close>

theorem generateFilename_counterexample:
  "generateFilename (example_testCase\<lparr>title := ''My_Login  Test''\<rparr>) = ''test_my_login_test.py''
   \<and> spec_filename (example_testCase\<lparr>title := ''My_Login  Test''\<rparr>) = ''mylogin__test.py''
   \<and> generateFilename (example_testCase\<lparr>title := ''My_Login  Test''\<rparr>)
       \<noteq> spec_filename (example_testCase\<lparr>title := ''My_Login  Test''\<rparr>)
   \<and> generateFilename (example_testCase\<lparr>format := ''junit''\<rparr>) = ''checkout_flow.txt''"
  by code_simp

text \<open>
  C10. \<open>completeSession(sessionId)\<close> with no session held, or with an id other than the
  held session's, changes nothing: the held session with its status, end time,
  interactions and API calls, the recording flag and the window are as before, and
  nothing is saved.
\<close>

theorem completeSession_mismatch_unchanged:
  "(case currentSession st of None \<Rightarrow> True | Some s \<Rightarrow> id_s s \<noteq> sid)
     \<Longrightarrow> completeSession sid st = st"
  by (simp add: completeSession_def split: option.splits)

text \<open>A call with another id on a recording controller, and a call on a fresh one.\<close>

theorem completeSession_mismatch_unchanged_witness:
  "completeSession ''session_2'' (run [example_start] newRecordingService)
     = run [example_start] newRecordingService
   \<and> completeSession ''session_2'' newRecordingService = newRecordingService"
proof -
  have held: "case currentSession (run [example_start] newRecordingService) of
                None \<Rightarrow> True | Some s \<Rightarrow> id_s s \<noteq> ''session_2''"
    by (simp add: controller_defs string_of_nat.simps digit_char_def)
  have none: "case currentSession newRecordingService of
                None \<Rightarrow> True | Some s \<Rightarrow> id_s s \<noteq> ''session_2''"
    by (simp add: newRecordingService_def)
  show ?thesis
    using completeSession_mismatch_unchanged [OF held] completeSession_mismatch_unchanged [OF none]
    by simp
qed

end
